theory Spec2Isabelle
  imports Complex_Main
begin

section \<open>The Qibla compass hook: numbers, sensor data and state\<close>

text \<open>
  The hook \<^verbatim>\<open>useQiblaCompass\<close> of \<^verbatim>\<open>src/index.js\<close> is embedded function by function.
  A JavaScript number is modelled as a real number: the arithmetic of the hook is the
  arithmetic of \<^typ>\<open>real\<close>, without the rounding of IEEE doubles, without NaN and
  without signed zeros. The headings the hook stores are integers between 0 and 360,
  on which double arithmetic is exact, so \<open>degree\<close>, \<open>direction\<close> and the rotations are
  those of the code. The trigonometric computations of \<open>angle\<close> and \<open>calculate\<close> are the
  exact ones: the doubles of the code follow them up to rounding, and can differ from
  them where the exact value is within rounding error of a tie of \<^verbatim>\<open>Math.round\<close> or of
  the end \<open>-\<pi>\<close> of the range of \<^verbatim>\<open>Math.atan2\<close>, and at a negative zero.
\<close>

subsection \<open>The library functions of \<^verbatim>\<open>Math\<close>\<close>

text \<open>
  \<^verbatim>\<open>Math.atan2(y, x)\<close>: the angle of the point \<open>(x, y)\<close>, in \<open>(-\<pi>, \<pi>]\<close>, and 0 at the
  origin.
\<close>

definition Math_atan2 :: "real \<Rightarrow> real \<Rightarrow> real" where
  "Math_atan2 y x =
     (if 0 < x then arctan (y / x)
      else if x < 0 then (if 0 \<le> y then arctan (y / x) + pi else arctan (y / x) - pi)
      else if 0 < y then pi / 2
      else if y < 0 then - (pi / 2)
      else 0)"

text \<open>\<^verbatim>\<open>Math.round(v)\<close>: the nearest integer, a tie going up: \<open>\<lfloor>v + 1/2\<rfloor>\<close>.\<close>

definition Math_round :: "real \<Rightarrow> real" where
  "Math_round v = real_of_int \<lfloor>v + 1 / 2\<rfloor>"

subsection \<open>Data\<close>

text \<open>The reading a magnetometer listener receives; the hook reads \<open>x\<close> and \<open>y\<close> only.\<close>

record sample =
  sx :: real
  sy :: real

text \<open>\<^verbatim>\<open>location.coords\<close>.\<close>

record coords =
  latitude :: real
  longitude :: real

text \<open>The outcome of an awaited promise.\<close>

datatype 'a promise = Rejected string | Resolved 'a

text \<open>What the external providers answer during one run of \<^verbatim>\<open>initCompass\<close>.\<close>

record providers =
  isAvailableAsync :: "bool promise"
  requestForegroundPermissionsAsync :: "string promise"
  getCurrentPositionAsync :: "coords promise"

text \<open>
  The five \<^verbatim>\<open>useState\<close> cells of the hook, and the state of the \<^verbatim>\<open>Magnetometer\<close>
  module it drives: the update interval and the handles of the registered listeners.
\<close>

record compass_state =
  subscription :: "nat option"
  magnetometer :: real
  qiblad :: real
  error :: "string option"
  isLoading :: bool
  updateInterval :: "nat option"
  listeners :: "nat list"

definition initial_state :: compass_state where
  "initial_state =
     \<lparr>subscription = None, magnetometer = 0, qiblad = 0, error = None, isLoading = True,
      updateInterval = None, listeners = []\<rparr>"

section \<open>The leaf computations\<close>

text \<open>
  \<^verbatim>\<open>angle\<close> (lines 67-78). The argument is \<open>None\<close> for a falsy value, for which the
  angle stays 0.
\<close>

definition angle :: "sample option \<Rightarrow> real" where
  "angle m =
     Math_round
       (case m of
          None \<Rightarrow> 0
        | Some d \<Rightarrow>
            (if Math_atan2 (sy d) (sx d) \<ge> 0
             then Math_atan2 (sy d) (sx d) * (180 / pi)
             else (Math_atan2 (sy d) (sx d) + 2 * pi) * (180 / pi)))"

text \<open>\<^verbatim>\<open>direction\<close> (lines 80-98).\<close>

definition direction :: "real \<Rightarrow> string" where
  "direction dg =
     (if dg \<ge> 22.5 \<and> dg < 67.5 then ''NE''
      else if dg \<ge> 67.5 \<and> dg < 112.5 then ''E''
      else if dg \<ge> 112.5 \<and> dg < 157.5 then ''SE''
      else if dg \<ge> 157.5 \<and> dg < 202.5 then ''S''
      else if dg \<ge> 202.5 \<and> dg < 247.5 then ''SW''
      else if dg \<ge> 247.5 \<and> dg < 292.5 then ''W''
      else if dg \<ge> 292.5 \<and> dg < 337.5 then ''NW''
      else ''N'')"

text \<open>\<^verbatim>\<open>degree\<close> (lines 100-102).\<close>

definition degree :: "real \<Rightarrow> real" where
  "degree m = (if m - 90 \<ge> 0 then m - 90 else m + 271)"

text \<open>
  \<^verbatim>\<open>calculate\<close> (lines 104-118): the value it computes, and the call of
  \<^verbatim>\<open>setQiblad\<close> that stores it.
\<close>

definition calculate_qiblad :: "real \<Rightarrow> real \<Rightarrow> real" where
  "calculate_qiblad lat lon =
     (let PI = pi;
          latk = (21.4225 * PI) / 180.0;
          longk = (39.8264 * PI) / 180.0;
          phi = (lat * PI) / 180.0;
          lambda = (lon * PI) / 180.0
      in (180.0 / PI) *
         Math_atan2
           (sin (longk - lambda))
           (cos phi * tan latk - sin phi * cos (longk - lambda)))"

definition calculate :: "real \<Rightarrow> real \<Rightarrow> compass_state \<Rightarrow> compass_state" where
  "calculate lat lon s = s\<lparr>qiblad := calculate_qiblad lat lon\<rparr>"

section \<open>The orchestrator\<close>

text \<open>
  \<^verbatim>\<open>subscribe\<close> (lines 53-60): sets the update interval to 100 ms, registers a
  listener and keeps its handle. A handle is the number of listeners registered before.
\<close>

definition subscribe :: "compass_state \<Rightarrow> compass_state" where
  "subscribe s =
     (let s1 = s\<lparr>updateInterval := Some 100\<rparr>;
          h = length (listeners s1);
          s2 = s1\<lparr>listeners := listeners s1 @ [h]\<rparr>
      in s2\<lparr>subscription := Some h\<rparr>)"

text \<open>
  \<^verbatim>\<open>initCompass\<close> (lines 21-43). The result is the outcome of the promise the async
  function returns, with the state it leaves. A \<^verbatim>\<open>try\<close> with a \<^verbatim>\<open>finally\<close> and no
  \<^verbatim>\<open>catch\<close> runs the \<^verbatim>\<open>finally\<close> block and then lets the exception go on.
\<close>

definition initCompass :: "providers \<Rightarrow> compass_state \<Rightarrow> unit promise \<times> compass_state" where
  "initCompass p s =
     (case isAvailableAsync p of
        Rejected e \<Rightarrow> (Rejected e, s)
      | Resolved isAvailable \<Rightarrow>
          if \<not> isAvailable
          then (Resolved (),
                s\<lparr>error := Some ''Compass is not available on this device'',
                  isLoading := False\<rparr>)
          else
            (case requestForegroundPermissionsAsync p of
               Rejected e \<Rightarrow> (Rejected e, s)
             | Resolved status \<Rightarrow>
                 if status \<noteq> ''granted''
                 then (Resolved (),
                       s\<lparr>error := Some ''Location permission not granted'',
                         isLoading := False\<rparr>)
                 else
                   (case getCurrentPositionAsync p of
                      Rejected e \<Rightarrow> (Rejected e, subscribe (s\<lparr>isLoading := False\<rparr>))
                    | Resolved location \<Rightarrow>
                        (Resolved (),
                         subscribe
                           ((calculate (latitude location) (longitude location) s)
                              \<lparr>isLoading := False\<rparr>)))))"

text \<open>
  The callback \<^verbatim>\<open>subscribe\<close> registers (lines 56-58), and a tick of the sensor, which
  calls every registered listener with the reading.
\<close>

definition listener :: "sample \<Rightarrow> compass_state \<Rightarrow> compass_state" where
  "listener d s = s\<lparr>magnetometer := angle (Some d)\<rparr>"

definition Magnetometer_emit :: "sample \<Rightarrow> compass_state \<Rightarrow> compass_state" where
  "Magnetometer_emit d s = fold (\<lambda>h. listener d) (listeners s) s"

text \<open>The values the hook derives on every render (lines 120-123).\<close>

definition compassDirection :: "compass_state \<Rightarrow> string" where
  "compassDirection s = direction (degree (magnetometer s))"

definition compassDegree :: "compass_state \<Rightarrow> real" where
  "compassDegree s = degree (magnetometer s)"

definition compassRotate :: "compass_state \<Rightarrow> real" where
  "compassRotate s = 360 - degree (magnetometer s)"

definition kabaRotate :: "compass_state \<Rightarrow> real" where
  "kabaRotate s = 360 - degree (magnetometer s) + qiblad s"

text \<open>
  The states the hook can be in: the state of the first render, and whatever a run of
  \<^verbatim>\<open>initCompass\<close> or a tick of the sensor makes of a state it can be in.
\<close>

inductive reachable :: "compass_state \<Rightarrow> bool" where
  reachable_initial: "reachable initial_state"
| reachable_init: "reachable s \<Longrightarrow> reachable (snd (initCompass p s))"
| reachable_emit: "reachable s \<Longrightarrow> reachable (Magnetometer_emit d s)"

section \<open>The formulas of the specification\<close>

text \<open>
  The definitions of this section follow the words of the specification, not the code;
  the theorems below compare them with the functions of the hook.
\<close>

definition deg2rad :: "real \<Rightarrow> real" where
  "deg2rad d = d * pi / 180"

definition rad2deg :: "real \<Rightarrow> real" where
  "rad2deg r = r * 180 / pi"

text \<open>The fixed target, the Kaaba.\<close>

definition FixedTarget :: coords where
  "FixedTarget = \<lparr>latitude = 21.4225, longitude = 39.8264\<rparr>"

text \<open>
  The forward azimuth from an observer to a target: both points in radians, \<open>\<Delta>\<lambda>\<close> the
  target's longitude less the observer's, the angle converted back to degrees.
\<close>

definition forward_azimuth :: "coords \<Rightarrow> coords \<Rightarrow> real" where
  "forward_azimuth observer target =
     (let phi_o = deg2rad (latitude observer);
          phi_t = deg2rad (latitude target);
          dl = deg2rad (longitude target) - deg2rad (longitude observer)
      in rad2deg (Math_atan2 (sin dl) (cos phi_o * tan phi_t - sin phi_o * cos dl)))"

text \<open>
  Stage 1 of the heading normaliser: the angle of the vector in degrees, 360 added when
  it is negative, rounded to the nearest integer.
\<close>

definition rawHeading_spec :: "sample \<Rightarrow> real" where
  "rawHeading_spec d =
     (let a = rad2deg (Math_atan2 (sy d) (sx d))
      in real_of_int (round (if a < 0 then a + 360 else a)))"

text \<open>The remainder of a real number modulo 360, in \<open>[0, 360)\<close>.\<close>

definition mod360 :: "real \<Rightarrow> real" where
  "mod360 v = v - 360 * real_of_int \<lfloor>v / 360\<rfloor>"

section \<open>Concrete runs\<close>

text \<open>Answers of the providers: no sensor, no permission, no location fix, and a fix.\<close>

definition no_sensor :: providers where
  "no_sensor =
     \<lparr>isAvailableAsync = Resolved False,
      requestForegroundPermissionsAsync = Resolved ''granted'',
      getCurrentPositionAsync = Resolved \<lparr>latitude = 0, longitude = 0\<rparr>\<rparr>"

definition no_permission :: providers where
  "no_permission =
     \<lparr>isAvailableAsync = Resolved True,
      requestForegroundPermissionsAsync = Resolved ''denied'',
      getCurrentPositionAsync = Resolved \<lparr>latitude = 0, longitude = 0\<rparr>\<rparr>"

definition no_location :: providers where
  "no_location =
     \<lparr>isAvailableAsync = Resolved True,
      requestForegroundPermissionsAsync = Resolved ''granted'',
      getCurrentPositionAsync = Rejected ''Location request failed''\<rparr>"

definition west_observer :: providers where
  "west_observer =
     \<lparr>isAvailableAsync = Resolved True,
      requestForegroundPermissionsAsync = Resolved ''granted'',
      getCurrentPositionAsync = Resolved \<lparr>latitude = 0, longitude = - 50.1736\<rparr>\<rparr>"

text \<open>
  Two states of the hook: after a run without a location fix and the reading \<open>(0, 1)\<close>,
  and after a run with a fix on the equator, 90 degrees west of the target, and the
  reading \<open>(-1, 1)\<close>.
\<close>

definition facing_state :: compass_state where
  "facing_state =
     Magnetometer_emit \<lparr>sx = 0, sy = 1\<rparr> (snd (initCompass no_location initial_state))"

definition turned_state :: compass_state where
  "turned_state =
     Magnetometer_emit \<lparr>sx = - 1, sy = 1\<rparr> (snd (initCompass west_observer initial_state))"

section \<open>The library functions\<close>

text \<open>
  \<open>Math_atan2\<close> stays in \<open>(-\<pi>, \<pi>]\<close>, it is the angle of the polar form of the point, and
  so the argument of the complex number \<open>x + iy\<close>.
\<close>

lemma Math_atan2_bounds: "- pi < Math_atan2 y x \<and> Math_atan2 y x \<le> pi"
proof -
  have b: "- (pi / 2) < arctan (y / x)" "arctan (y / x) < pi / 2"
    by (rule arctan_lbound, rule arctan_ubound)
  have pos: "0 < pi" by simp
  consider "0 < x" | "x < 0" "0 \<le> y" | "x < 0" "y < 0" | "x = 0"
    by linarith
  then show ?thesis
  proof cases
    case 1
    then have "Math_atan2 y x = arctan (y / x)" by (simp add: Math_atan2_def)
    with b pos show ?thesis by linarith
  next
    case 2
    then have "y / x \<le> 0" by (simp add: divide_nonneg_neg)
    then have "arctan (y / x) \<le> 0" by simp
    moreover from 2 have "Math_atan2 y x = arctan (y / x) + pi" by (simp add: Math_atan2_def)
    ultimately show ?thesis using b pos by linarith
  next
    case 3
    then have "0 < y / x" by (simp add: divide_neg_neg)
    then have "0 < arctan (y / x)" by simp
    moreover from 3 have "Math_atan2 y x = arctan (y / x) - pi" by (simp add: Math_atan2_def)
    ultimately show ?thesis using b pos by linarith
  next
    case 4
    then have "Math_atan2 y x = pi / 2 \<or> Math_atan2 y x = - (pi / 2) \<or> Math_atan2 y x = 0"
      by (simp add: Math_atan2_def)
    with pos show ?thesis by linarith
  qed
qed

lemma Math_atan2_axes:
  "Math_atan2 0 1 = 0" "Math_atan2 1 0 = pi / 2" "Math_atan2 0 (- 1) = pi"
  "Math_atan2 (- 1) 0 = - (pi / 2)"
  by (simp_all add: Math_atan2_def)

lemma sqrt_one_plus_ratio:
  assumes "x \<noteq> 0"
  shows "sqrt (1 + (y / x)\<^sup>2) = sqrt (x\<^sup>2 + y\<^sup>2) / \<bar>x\<bar>"
proof -
  from assms have "1 + (y / x)\<^sup>2 = (x\<^sup>2 + y\<^sup>2) / x\<^sup>2"
    by (simp add: field_simps power2_eq_square)
  then have "sqrt (1 + (y / x)\<^sup>2) = sqrt (x\<^sup>2 + y\<^sup>2) / sqrt (x\<^sup>2)"
    by (simp add: real_sqrt_divide)
  then show ?thesis by simp
qed

lemma cos_sin_arctan_ratio:
  assumes "x \<noteq> 0"
  shows "cos (arctan (y / x)) = \<bar>x\<bar> / sqrt (x\<^sup>2 + y\<^sup>2)"
    and "sin (arctan (y / x)) = (y / x) * \<bar>x\<bar> / sqrt (x\<^sup>2 + y\<^sup>2)"
  using assms by (simp_all add: cos_arctan sin_arctan sqrt_one_plus_ratio)

lemma Math_atan2_polar:
  "x = sqrt (x\<^sup>2 + y\<^sup>2) * cos (Math_atan2 y x) \<and>
   y = sqrt (x\<^sup>2 + y\<^sup>2) * sin (Math_atan2 y x)"
proof -
  consider "0 < x" | "x < 0" "0 \<le> y" | "x < 0" "y < 0" | "x = 0" "0 < y" | "x = 0" "y < 0"
    | "x = 0" "y = 0"
    by linarith
  then show ?thesis
  proof cases
    case 1
    then have r: "sqrt (x\<^sup>2 + y\<^sup>2) \<noteq> 0" "x \<noteq> 0" "\<bar>x\<bar> = x"
      by (simp_all add: sum_power2_eq_zero_iff)
    from 1 have "Math_atan2 y x = arctan (y / x)" by (simp add: Math_atan2_def)
    with r show ?thesis by (simp add: cos_sin_arctan_ratio)
  next
    case 2
    then have r: "sqrt (x\<^sup>2 + y\<^sup>2) \<noteq> 0" "x \<noteq> 0" "\<bar>x\<bar> = - x"
      by (simp_all add: sum_power2_eq_zero_iff)
    from 2 have "Math_atan2 y x = arctan (y / x) + pi" by (simp add: Math_atan2_def)
    with r show ?thesis by (simp add: cos_sin_arctan_ratio)
  next
    case 3
    then have r: "sqrt (x\<^sup>2 + y\<^sup>2) \<noteq> 0" "x \<noteq> 0" "\<bar>x\<bar> = - x"
      by (simp_all add: sum_power2_eq_zero_iff)
    from 3 have "Math_atan2 y x = arctan (y / x) - pi" by (simp add: Math_atan2_def)
    with r show ?thesis by (simp add: cos_sin_arctan_ratio)
  next
    case 4
    then show ?thesis by (simp add: Math_atan2_def)
  next
    case 5
    then show ?thesis by (simp add: Math_atan2_def)
  next
    case 6
    then show ?thesis by (simp add: Math_atan2_def)
  qed
qed

lemma Math_atan2_Arg: "Math_atan2 y x = Arg (Complex x y)"
proof (cases "x = 0 \<and> y = 0")
  case True
  then have "Complex x y = 0" by (simp add: complex_eq_iff)
  with True show ?thesis by (simp add: Math_atan2_def Arg_zero)
next
  case False
  then have nz: "sqrt (x\<^sup>2 + y\<^sup>2) \<noteq> 0"
    by (auto simp: sum_power2_eq_zero_iff)
  have "sgn (Complex x y) = cis (Math_atan2 y x)"
  proof (rule complex_eqI)
    have "Re (sgn (Complex x y)) = x / sqrt (x\<^sup>2 + y\<^sup>2)"
      by (simp add: sgn_eq cmod_def)
    also have "\<dots> = cos (Math_atan2 y x)"
      using Math_atan2_polar [of x y] nz by (simp add: field_simps)
    finally show "Re (sgn (Complex x y)) = Re (cis (Math_atan2 y x))" by simp
    have "Im (sgn (Complex x y)) = y / sqrt (x\<^sup>2 + y\<^sup>2)"
      by (simp add: sgn_eq cmod_def)
    also have "\<dots> = sin (Math_atan2 y x)"
      using Math_atan2_polar [of x y] nz by (simp add: field_simps)
    finally show "Im (sgn (Complex x y)) = Im (cis (Math_atan2 y x))" by simp
  qed
  then have "Arg (Complex x y) = Math_atan2 y x"
    using Math_atan2_bounds [of y x] by (intro cis_Arg_unique) simp_all
  then show ?thesis by simp
qed

text \<open>
  \<open>Math_round\<close> is the rounding of the library, and leaves an integer as it is.
\<close>

lemma Math_round_round: "Math_round v = real_of_int (round v)"
  by (simp add: Math_round_def round_def)

lemma Math_round_of_int: "Math_round (real_of_int n) = real_of_int n"
  by (simp add: Math_round_round)

lemma Math_round_range:
  assumes "0 \<le> v" and "v < 360"
  shows "\<exists>n. 0 \<le> n \<and> n \<le> 360 \<and> Math_round v = real_of_int n"
proof -
  from assms(1) have "0 \<le> \<lfloor>v + 1 / 2\<rfloor>" by simp
  moreover from assms(2) have "v + 1 / 2 < real_of_int 361" by simp
  then have "\<lfloor>v + 1 / 2\<rfloor> < 361" by (simp only: floor_less_iff)
  ultimately show ?thesis by (simp add: Math_round_def)
qed

text \<open>
  Radians to degrees.
\<close>

lemma rad2deg_sign: "rad2deg a < 0 \<longleftrightarrow> a < 0"
  by (simp add: rad2deg_def divide_less_0_iff mult_less_0_iff)

lemma rad2deg_turn: "(a + 2 * pi) * (180 / pi) = rad2deg a + 360"
  by (simp add: rad2deg_def field_simps)

lemma rad2deg_bounds:
  assumes "- pi < a" and "a \<le> pi"
  shows "- 180 < rad2deg a" and "rad2deg a \<le> 180"
proof -
  have pos: "0 < pi" by simp
  from assms(1) pos have "- 180 * pi < a * 180" by simp
  with pos show "- 180 < rad2deg a"
    by (simp add: rad2deg_def pos_less_divide_eq)
  from assms(2) pos have "a * 180 \<le> 180 * pi" by simp
  with pos show "rad2deg a \<le> 180"
    by (simp add: rad2deg_def pos_divide_le_eq)
qed

section \<open>Stage 1: the raw heading\<close>

text \<open>
  The value \<open>angle\<close> rounds is the angle in degrees, a turn added when it is negative.
\<close>

lemma angle_Some:
  "angle (Some d) =
     Math_round
       (if rad2deg (Math_atan2 (sy d) (sx d)) < 0
        then rad2deg (Math_atan2 (sy d) (sx d)) + 360
        else rad2deg (Math_atan2 (sy d) (sx d)))"
proof (cases "Math_atan2 (sy d) (sx d) \<ge> 0")
  case True
  then have "\<not> rad2deg (Math_atan2 (sy d) (sx d)) < 0" by (simp add: rad2deg_sign)
  with True show ?thesis by (simp add: angle_def rad2deg_def)
next
  case False
  then have "rad2deg (Math_atan2 (sy d) (sx d)) < 0" by (simp add: rad2deg_sign)
  with False show ?thesis by (simp only: angle_def option.case if_False if_True rad2deg_turn)
qed

lemma angle_nonneg_rad:
  assumes "Math_atan2 (sy d) (sx d) = a" and "0 \<le> a" and "a * (180 / pi) = real_of_int n"
  shows "angle (Some d) = real_of_int n"
  using assms by (simp add: angle_def Math_round_of_int)

lemma angle_neg_rad:
  assumes "Math_atan2 (sy d) (sx d) = a" and "a < 0"
    and "(a + 2 * pi) * (180 / pi) = real_of_int n"
  shows "angle (Some d) = real_of_int n"
  using assms by (simp add: angle_def Math_round_of_int)

lemma angle_axes:
  "angle (Some \<lparr>sx = 1, sy = 0\<rparr>) = 0"
  "angle (Some \<lparr>sx = 0, sy = 1\<rparr>) = 90"
  "angle (Some \<lparr>sx = - 1, sy = 0\<rparr>) = 180"
  "angle (Some \<lparr>sx = 0, sy = - 1\<rparr>) = 270"
  "angle (Some \<lparr>sx = - 1, sy = 1\<rparr>) = 135"
  "angle None = 0"
proof -
  have pos: "0 < pi" by simp
  have "angle (Some \<lparr>sx = 1, sy = 0\<rparr>) = real_of_int 0"
    by (rule angle_nonneg_rad [where a = 0]) (simp_all add: Math_atan2_axes)
  then show "angle (Some \<lparr>sx = 1, sy = 0\<rparr>) = 0" by simp
  have "angle (Some \<lparr>sx = 0, sy = 1\<rparr>) = real_of_int 90"
    by (rule angle_nonneg_rad [where a = "pi / 2"]) (simp_all add: Math_atan2_axes)
  then show "angle (Some \<lparr>sx = 0, sy = 1\<rparr>) = 90" by simp
  have "angle (Some \<lparr>sx = - 1, sy = 0\<rparr>) = real_of_int 180"
    by (rule angle_nonneg_rad [where a = pi]) (simp_all add: Math_atan2_axes)
  then show "angle (Some \<lparr>sx = - 1, sy = 0\<rparr>) = 180" by simp
  have "angle (Some \<lparr>sx = 0, sy = - 1\<rparr>) = real_of_int 270"
    by (rule angle_neg_rad [where a = "- (pi / 2)"]) (simp_all add: Math_atan2_axes field_simps)
  then show "angle (Some \<lparr>sx = 0, sy = - 1\<rparr>) = 270" by simp
  have "Math_atan2 1 (- 1) = 3 * pi / 4"
    by (simp add: Math_atan2_def arctan_minus arctan_one)
  then have "angle (Some \<lparr>sx = - 1, sy = 1\<rparr>) = real_of_int 135"
    by (intro angle_nonneg_rad [where a = "3 * pi / 4"]) (simp_all add: field_simps)
  then show "angle (Some \<lparr>sx = - 1, sy = 1\<rparr>) = 135" by simp
  show "angle None = 0"
    by (simp add: angle_def Math_round_def)
qed

text \<open>
  In exact arithmetic, \<open>angle\<close> is Stage 1 of the specification: the angle
  \<open>atan2(y, x)\<close> in degrees, with 360 added when it is negative, rounded to the nearest
  integer. This is a statement about the real numbers, not about the doubles of the code:
  where the exact angle is close below a half, as at the sample
  \<open>(-1.6826380414597546, 0.6969714973375328)\<close>, the double the code rounds can be the
  half itself, and the code returns one more. The samples \<open>(1, 0)\<close>, \<open>(0, 1)\<close>, \<open>(-1, 0)\<close>
  and \<open>(0, -1)\<close> give 0, 90, 180 and 270, the retained heading is 0 before any sample, and
  \<open>angle\<close> is 0 without a sample.
\<close>

lemma angle_exact_arithmetic:
  "angle (Some d) = rawHeading_spec d \<and>
   angle (Some \<lparr>sx = 1, sy = 0\<rparr>) = 0 \<and>
   angle (Some \<lparr>sx = 0, sy = 1\<rparr>) = 90 \<and>
   angle (Some \<lparr>sx = - 1, sy = 0\<rparr>) = 180 \<and>
   angle (Some \<lparr>sx = 0, sy = - 1\<rparr>) = 270 \<and>
   magnetometer initial_state = 0 \<and> angle None = 0"
proof -
  have "angle (Some d) = rawHeading_spec d"
    by (simp only: angle_Some rawHeading_spec_def Let_def Math_round_round)
  moreover have "magnetometer initial_state = 0"
    by (simp add: initial_state_def)
  ultimately show ?thesis
    by (simp only: angle_axes simp_thms)
qed

text \<open>
  The raw heading is an integer from 0 to 360: 360 is the rounding of an angle of 359.5
  degrees or more.
\<close>

lemma angle_range: "\<exists>n. 0 \<le> n \<and> n \<le> 360 \<and> angle m = real_of_int n"
proof (cases m)
  case None
  then have "angle m = real_of_int 0" by (simp add: angle_axes)
  then show ?thesis by fastforce
next
  case (Some d)
  define r where "r = rad2deg (Math_atan2 (sy d) (sx d))"
  have r: "- 180 < r" "r \<le> 180"
    using Math_atan2_bounds [of "sy d" "sx d"] by (simp_all add: r_def rad2deg_bounds)
  have "angle m = Math_round (if r < 0 then r + 360 else r)"
    by (simp only: Some angle_Some r_def)
  moreover from r have "0 \<le> (if r < 0 then r + 360 else r)" "(if r < 0 then r + 360 else r) < 360"
    by simp_all
  ultimately show ?thesis by (simp only: Math_round_range)
qed

text \<open>
  A sample with the raw heading 89. The angle of \<open>(1, 60)\<close> is a right angle less
  \<open>arctan (1/60)\<close>, which doubling five and six times places between \<open>\<pi>/256\<close> and
  \<open>\<pi>/128\<close>, so between 0.7 and 1.41 degrees.
\<close>

lemma arctan_double_upper:
  assumes "0 \<le> x" and "x < 1" and "2 * x / (1 - x\<^sup>2) \<le> u"
  shows "2 * arctan x \<le> arctan u"
proof -
  from assms(1,2) have "\<bar>x\<bar> < 1" by simp
  then have "2 * arctan x = arctan (2 * x / (1 - x\<^sup>2))" by (rule arctan_double)
  with assms(3) show ?thesis by (simp add: arctan_monotone')
qed

lemma arctan_double_lower:
  assumes "0 \<le> x" and "x < 1" and "l \<le> 2 * x / (1 - x\<^sup>2)"
  shows "arctan l \<le> 2 * arctan x"
proof -
  from assms(1,2) have "\<bar>x\<bar> < 1" by simp
  then have "2 * arctan x = arctan (2 * x / (1 - x\<^sup>2))" by (rule arctan_double)
  with assms(3) show ?thesis by (simp add: arctan_monotone')
qed

lemma arctan_sixtieth_upper: "arctan (1 / 60) \<le> pi / 128"
proof -
  have "2 * arctan (1 / 60) \<le> arctan (1 / 29)"
    by (rule arctan_double_upper) (simp_all add: power2_eq_square)
  moreover have "2 * arctan (1 / 29) \<le> arctan (1 / 14)"
    by (rule arctan_double_upper) (simp_all add: power2_eq_square)
  moreover have "2 * arctan (1 / 14) \<le> arctan (3 / 20)"
    by (rule arctan_double_upper) (simp_all add: power2_eq_square)
  moreover have "2 * arctan (3 / 20) \<le> arctan (1 / 3)"
    by (rule arctan_double_upper) (simp_all add: power2_eq_square)
  moreover have "2 * arctan (1 / 3) \<le> arctan 1"
    by (rule arctan_double_upper) (simp_all add: power2_eq_square)
  ultimately have "32 * arctan (1 / 60) \<le> pi / 4"
    using arctan_one by linarith
  then show ?thesis by simp
qed

lemma arctan_sixtieth_lower: "pi / 256 \<le> arctan (1 / 60)"
proof -
  have "arctan (1 / 30) \<le> 2 * arctan (1 / 60)"
    by (rule arctan_double_lower) (simp_all add: power2_eq_square)
  moreover have "arctan (1 / 15) \<le> 2 * arctan (1 / 30)"
    by (rule arctan_double_lower) (simp_all add: power2_eq_square)
  moreover have "arctan (2 / 15) \<le> 2 * arctan (1 / 15)"
    by (rule arctan_double_lower) (simp_all add: power2_eq_square)
  moreover have "arctan (4 / 15) \<le> 2 * arctan (2 / 15)"
    by (rule arctan_double_lower) (simp_all add: power2_eq_square)
  moreover have "arctan (8 / 15) \<le> 2 * arctan (4 / 15)"
    by (rule arctan_double_lower) (simp_all add: power2_eq_square)
  moreover have "arctan 1 \<le> 2 * arctan (8 / 15)"
    by (rule arctan_double_lower) (simp_all add: power2_eq_square)
  ultimately have "pi / 4 \<le> 64 * arctan (1 / 60)"
    using arctan_one by linarith
  then show ?thesis by simp
qed

lemma angle_89: "angle (Some \<lparr>sx = 1, sy = 60\<rparr>) = 89"
proof -
  define t where "t = arctan (1 / 60)"
  have pos: "0 < pi" by simp
  have t: "pi / 256 \<le> t" "t \<le> pi / 128"
    by (simp_all only: t_def arctan_sixtieth_lower arctan_sixtieth_upper)
  have "arctan (1 / 60) = sgn (60::real) * pi / 2 - arctan 60"
    by (rule arctan_inverse) simp
  then have a: "arctan 60 = pi / 2 - t" by (simp add: t_def)
  have lo: "180 / 256 \<le> t * (180 / pi)"
    using t(1) pos by (simp add: field_simps)
  have hi: "t * (180 / pi) \<le> 180 / 128"
    using t(2) pos by (simp add: field_simps)
  have v: "(pi / 2 - t) * (180 / pi) = 90 - t * (180 / pi)"
    by (simp add: field_simps)
  have "\<lfloor>(pi / 2 - t) * (180 / pi) + 1 / 2\<rfloor> = 89"
    unfolding v by (rule floor_unique) (use lo hi in simp_all)
  moreover have "0 \<le> pi / 2 - t" using t(2) pos by linarith
  ultimately show ?thesis
    by (simp add: angle_def Math_atan2_def Math_round_def a)
qed

section \<open>Stage 2: the device-frame correction\<close>

text \<open>
  C2. For every raw heading, \<open>degree\<close> returns the heading less 90 when that is not
  negative and the heading plus 271 otherwise; it sends 0 to 271, 90 to 0 and 45 to 316.
\<close>

theorem degree_branches:
  "(0 \<le> a - 90 \<longrightarrow> degree a = a - 90) \<and>
   (\<not> 0 \<le> b - 90 \<longrightarrow> degree b = b + 271) \<and>
   degree 0 = 271 \<and> degree 90 = 0 \<and> degree 45 = 316"
  by (simp add: degree_def)

theorem degree_branches_witness:
  "degree 100 = 10 \<and> degree 45 = 316"
  using degree_branches [of 100 45] by simp

text \<open>
  On the integers, the two branches are two shifts.
\<close>

lemma degree_of_int_ge: "90 \<le> n \<Longrightarrow> degree (real_of_int n) = real_of_int (n - 90)"
  by (simp add: degree_def)

lemma degree_of_int_less: "n < 90 \<Longrightarrow> degree (real_of_int n) = real_of_int (n + 271)"
  by (simp add: degree_def)

lemma shift_down: "(\<lambda>n. n - 90) ` {90..359::int} = {0..269}"
  by (auto simp: image_iff intro: bexI [where x = "x + 90" for x])

lemma shift_up: "(\<lambda>n. n + 271) ` {0..89::int} = {271..360}"
  by (auto simp: image_iff intro: bexI [where x = "x - 271" for x])

lemma degree_int_range:
  assumes "0 \<le> n" and "n \<le> 360"
  shows "0 \<le> degree (real_of_int n)" and "degree (real_of_int n) \<le> 360"
  using assms by (simp_all add: degree_def)

text \<open>
  C9. On the integer raw headings 0 to 359, \<open>degree\<close> never returns 270: the headings
  90 to 359 go onto 0 to 269, the headings 0 to 89 onto 271 to 360, and 360 is the value
  at 89.
\<close>

theorem degree_integers:
  "(\<forall>n\<in>{0..359::int}. degree (real_of_int n) \<noteq> 270) \<and>
   degree ` real_of_int ` {90..359} = real_of_int ` {0..269} \<and>
   degree ` real_of_int ` {0..89} = real_of_int ` {271..360} \<and>
   degree 89 = 360"
proof (intro conjI)
  show "\<forall>n\<in>{0..359::int}. degree (real_of_int n) \<noteq> 270"
  proof
    fix n :: int
    assume "n \<in> {0..359}"
    show "degree (real_of_int n) \<noteq> 270"
    proof (cases "90 \<le> n")
      case True
      with \<open>n \<in> {0..359}\<close> have "n - 90 \<noteq> 270" by simp
      then have "real_of_int (n - 90) \<noteq> real_of_int 270" by (simp only: of_int_eq_iff not_False_eq_True)
      with True show ?thesis by (simp add: degree_of_int_ge)
    next
      case False
      with \<open>n \<in> {0..359}\<close> have "n + 271 \<noteq> 270" by simp
      then have "real_of_int (n + 271) \<noteq> real_of_int 270" by (simp only: of_int_eq_iff not_False_eq_True)
      with False show ?thesis by (simp add: degree_of_int_less)
    qed
  qed
next
  have "degree ` real_of_int ` {90..359} = real_of_int ` (\<lambda>n. n - 90) ` {90..359}"
    unfolding image_image by (rule image_cong) (simp_all add: degree_of_int_ge)
  then show "degree ` real_of_int ` {90..359} = real_of_int ` {0..269}"
    by (simp only: shift_down)
next
  have "degree ` real_of_int ` {0..89} = real_of_int ` (\<lambda>n. n + 271) ` {0..89}"
    unfolding image_image by (rule image_cong) (simp_all add: degree_of_int_less)
  then show "degree ` real_of_int ` {0..89} = real_of_int ` {271..360}"
    by (simp only: shift_up)
next
  show "degree 89 = 360" by (simp add: degree_def)
qed

theorem degree_integers_witness:
  "degree (real_of_int 45) \<noteq> 270 \<and> degree 89 = 360"
proof -
  have all: "\<forall>n\<in>{0..359::int}. degree (real_of_int n) \<noteq> 270"
    using degree_integers by (rule conjunct1)
  have "degree (real_of_int 45) \<noteq> 270"
    by (rule bspec [OF all]) simp
  moreover have "degree 89 = 360"
    by (simp add: degree_def)
  ultimately show ?thesis by (rule conjI)
qed

text \<open>
  C7. Every raw heading in \<open>[0, 360)\<close> that Stage 1 produces should have its device
  heading in \<open>[0, 360)\<close>. The sample \<open>(1, 60)\<close> has the raw heading 89, and \<open>degree\<close>
  sends it to 360, which is not below 360: the branch that wraps adds 271, one more than
  the 270 that continues the other branch modulo 360.
\<close>

theorem degree_leaves_range:
  "angle (Some \<lparr>sx = 1, sy = 60\<rparr>) = 89 \<and>
   degree (angle (Some \<lparr>sx = 1, sy = 60\<rparr>)) = 360 \<and>
   \<not> degree (angle (Some \<lparr>sx = 1, sy = 60\<rparr>)) < 360"
  by (simp add: angle_89 degree_def)

section \<open>The sector classifier\<close>

text \<open>
  C4. For every device heading, \<open>direction\<close> returns one of the eight labels, and each
  label on exactly its bin: the seven half-open bins of 45 degrees from 22.5 to 337.5,
  and \<open>N\<close> everywhere else, so on \<open>[337.5, 360)\<close> and on \<open>[0, 22.5)\<close>. The headings 0,
  22.4 and 359.9 are \<open>N\<close>, and 22.5 is \<open>NE\<close>.
\<close>

theorem direction_bins:
  "(direction h = ''NE'' \<longleftrightarrow> 22.5 \<le> h \<and> h < 67.5) \<and>
   (direction h = ''E'' \<longleftrightarrow> 67.5 \<le> h \<and> h < 112.5) \<and>
   (direction h = ''SE'' \<longleftrightarrow> 112.5 \<le> h \<and> h < 157.5) \<and>
   (direction h = ''S'' \<longleftrightarrow> 157.5 \<le> h \<and> h < 202.5) \<and>
   (direction h = ''SW'' \<longleftrightarrow> 202.5 \<le> h \<and> h < 247.5) \<and>
   (direction h = ''W'' \<longleftrightarrow> 247.5 \<le> h \<and> h < 292.5) \<and>
   (direction h = ''NW'' \<longleftrightarrow> 292.5 \<le> h \<and> h < 337.5) \<and>
   (direction h = ''N'' \<longleftrightarrow> h < 22.5 \<or> 337.5 \<le> h) \<and>
   direction h \<in> {''N'', ''NE'', ''E'', ''SE'', ''S'', ''SW'', ''W'', ''NW''} \<and>
   direction 0 = ''N'' \<and> direction 22.4 = ''N'' \<and> direction 22.5 = ''NE'' \<and>
   direction 359.9 = ''N''"
  by (auto simp add: direction_def)

section \<open>The bearing calculator\<close>

text \<open>
  The value \<open>calculate\<close> stores is the forward azimuth of the specification, and the
  degrees of an angle in \<open>(-\<pi>, \<pi>]\<close>.
\<close>

lemma calculate_qiblad_spec:
  "calculate_qiblad lat lon = forward_azimuth \<lparr>latitude = lat, longitude = lon\<rparr> FixedTarget"
  by (simp add: calculate_qiblad_def forward_azimuth_def FixedTarget_def deg2rad_def
      rad2deg_def Let_def)

lemma calculate_qiblad_rad2deg:
  "\<exists>a. - pi < a \<and> a \<le> pi \<and> calculate_qiblad lat lon = rad2deg a"
proof -
  let ?a = "Math_atan2
           (sin (39.8264 * pi / 180 - lon * pi / 180))
           (cos (lat * pi / 180) * tan (21.4225 * pi / 180) -
            sin (lat * pi / 180) * cos (39.8264 * pi / 180 - lon * pi / 180))"
  have "calculate_qiblad lat lon = rad2deg ?a"
    by (simp add: calculate_qiblad_def rad2deg_def Let_def)
  with Math_atan2_bounds show ?thesis by blast
qed

lemma calculate_qiblad_bounds:
  "- 180 < calculate_qiblad lat lon" "calculate_qiblad lat lon \<le> 180"
  using calculate_qiblad_rad2deg [of lat lon] by (auto simp: rad2deg_bounds)

text \<open>
  Two observers on the equator, 90 degrees east and 90 degrees west of the target: the
  bearings are the target's latitude less 90 degrees, and its opposite.
\<close>

lemma calculate_qiblad_east:
  "calculate_qiblad 0 129.8264 = - 68.5775"
proof -
  define latk :: real where "latk = 21.4225 * pi / 180"
  have pos: "0 < pi" by simp
  have latk: "0 < latk" "latk < pi / 2"
    using pos by (simp_all add: latk_def)
  have dl: "39.8264 * pi / 180 - 129.8264 * pi / 180 = - (pi / 2)"
    by (simp add: field_simps)
  have t: "0 < tan latk" using latk by (rule tan_gt_zero)
  have "Math_atan2 (- 1) (tan latk) = arctan (- 1 / tan latk)"
    using t by (simp add: Math_atan2_def)
  also have "- 1 / tan latk = - tan (pi / 2 - latk)"
    by (simp add: tan_inverse [symmetric])
  also have "arctan (- tan (pi / 2 - latk)) = - (pi / 2 - latk)"
    using latk by (simp add: arctan_minus arctan_tan)
  finally have a: "Math_atan2 (- 1) (tan latk) = latk - pi / 2" by simp
  have "calculate_qiblad 0 129.8264 = (180 / pi) * Math_atan2 (- 1) (tan latk)"
    by (simp add: calculate_qiblad_def Let_def dl latk_def)
  also have "\<dots> = (180 / pi) * (latk - pi / 2)" by (simp only: a)
  also have "\<dots> = - 68.5775" by (simp add: latk_def field_simps)
  finally show ?thesis .
qed

lemma calculate_qiblad_west:
  "calculate_qiblad 0 (- 50.1736) = 68.5775"
proof -
  define latk :: real where "latk = 21.4225 * pi / 180"
  have pos: "0 < pi" by simp
  have latk: "0 < latk" "latk < pi / 2"
    using pos by (simp_all add: latk_def)
  have dl: "39.8264 * pi / 180 - (- 50.1736) * pi / 180 = pi / 2"
    by (simp add: field_simps)
  have t: "0 < tan latk" using latk by (rule tan_gt_zero)
  have "Math_atan2 1 (tan latk) = arctan (1 / tan latk)"
    using t by (simp add: Math_atan2_def)
  also have "1 / tan latk = tan (pi / 2 - latk)"
    by (simp add: tan_inverse [symmetric])
  also have "arctan (tan (pi / 2 - latk)) = pi / 2 - latk"
    using latk by (simp add: arctan_tan)
  finally have a: "Math_atan2 1 (tan latk) = pi / 2 - latk" by simp
  have "calculate_qiblad 0 (- 50.1736) = (180 / pi) * Math_atan2 1 (tan latk)"
    using dl by (simp add: calculate_qiblad_def Let_def latk_def)
  also have "\<dots> = (180 / pi) * (pi / 2 - latk)" by (simp only: a)
  also have "\<dots> = 68.5775" by (simp add: latk_def field_simps)
  finally show ?thesis .
qed

text \<open>
  In exact arithmetic, \<open>calculate\<close> stores the forward azimuth to the fixed target
  \<open>(21.4225, 39.8264)\<close>, a value above -180 and at most 180 that is left signed: from the
  equator at longitude 129.8264 it is -68.5775. This is a statement about the real
  numbers, not about the doubles of the code: for an observer at latitude 80 and
  longitude 39.82640000000001 the exact value is just above -180, and the doubles give
  -180 itself.
\<close>

lemma calculate_exact_arithmetic:
  "calculate_qiblad lat lon = forward_azimuth \<lparr>latitude = lat, longitude = lon\<rparr> FixedTarget \<and>
   - 180 < calculate_qiblad lat lon \<and> calculate_qiblad lat lon \<le> 180 \<and>
   qiblad (calculate lat lon s) = calculate_qiblad lat lon \<and>
   calculate_qiblad 0 129.8264 = - 68.5775"
  by (intro conjI calculate_qiblad_spec calculate_qiblad_bounds calculate_qiblad_east)
    (simp add: calculate_def)

section \<open>The orchestrator\<close>

text \<open>
  A tick of the sensor stores the raw heading of the reading when a listener is
  registered, and changes nothing else.
\<close>

lemma fold_listener:
  "fold (\<lambda>h. listener d) hs s = (if hs = [] then s else s\<lparr>magnetometer := angle (Some d)\<rparr>)"
  by (induction hs arbitrary: s) (simp_all add: listener_def)

lemma emit_magnetometer:
  "magnetometer (Magnetometer_emit d s) =
     (if listeners s = [] then magnetometer s else angle (Some d))"
  by (simp add: Magnetometer_emit_def fold_listener)

lemma emit_qiblad: "qiblad (Magnetometer_emit d s) = qiblad s"
  by (simp add: Magnetometer_emit_def fold_listener)

text \<open>
  The state after a run with a fix on the equator, 90 degrees west of the target, and
  the reading \<open>(-1, 1)\<close>: the retained heading is 135 and the bearing 68.5775.
\<close>

lemma turned_state_fields: "magnetometer turned_state = 135" "qiblad turned_state = 68.5775"
proof -
  show "magnetometer turned_state = 135"
    by (simp add: turned_state_def emit_magnetometer angle_axes initCompass_def
        west_observer_def subscribe_def Let_def)
  have "qiblad turned_state = calculate_qiblad 0 (- 50.1736)"
    by (simp add: turned_state_def emit_qiblad initCompass_def west_observer_def
        subscribe_def Let_def calculate_def)
  then show "qiblad turned_state = 68.5775"
    by (simp only: calculate_qiblad_west)
qed

text \<open>
  C6. When the sensor is reported unavailable, \<open>initCompass\<close> records the error of the
  missing compass, ends the loading and returns; when the sensor is available and the
  permission is not granted, it records the error of the missing permission, ends the
  loading and returns. In both cases the subscription, the listeners and the update
  interval are what they were: no subscription is created.
\<close>

theorem initCompass_failed:
  "(isAvailableAsync p = Resolved False \<longrightarrow>
      initCompass p s =
        (Resolved (),
         s\<lparr>error := Some ''Compass is not available on this device'', isLoading := False\<rparr>) \<and>
      subscription (snd (initCompass p s)) = subscription s \<and>
      listeners (snd (initCompass p s)) = listeners s \<and>
      updateInterval (snd (initCompass p s)) = updateInterval s) \<and>
   (isAvailableAsync q = Resolved True \<and>
    requestForegroundPermissionsAsync q = Resolved status \<and> status \<noteq> ''granted'' \<longrightarrow>
      initCompass q s =
        (Resolved (),
         s\<lparr>error := Some ''Location permission not granted'', isLoading := False\<rparr>) \<and>
      subscription (snd (initCompass q s)) = subscription s \<and>
      listeners (snd (initCompass q s)) = listeners s \<and>
      updateInterval (snd (initCompass q s)) = updateInterval s)"
  by (simp add: initCompass_def)

theorem initCompass_failed_witness:
  "error (snd (initCompass no_sensor initial_state)) =
     Some ''Compass is not available on this device'' \<and>
   isLoading (snd (initCompass no_sensor initial_state)) = False \<and>
   subscription (snd (initCompass no_sensor initial_state)) = None \<and>
   listeners (snd (initCompass no_sensor initial_state)) = [] \<and>
   error (snd (initCompass no_permission initial_state)) =
     Some ''Location permission not granted'' \<and>
   isLoading (snd (initCompass no_permission initial_state)) = False \<and>
   subscription (snd (initCompass no_permission initial_state)) = None \<and>
   listeners (snd (initCompass no_permission initial_state)) = []"
proof -
  have a: "isAvailableAsync no_sensor = Resolved False"
    by (simp add: no_sensor_def)
  have b: "isAvailableAsync no_permission = Resolved True \<and>
    requestForegroundPermissionsAsync no_permission = Resolved ''denied'' \<and>
    ''denied'' \<noteq> ''granted''"
    by (simp add: no_permission_def)
  from a b initCompass_failed [of no_sensor initial_state no_permission "''denied''"]
  show ?thesis by (simp add: initial_state_def)
qed

text \<open>
  C5, as it stands: the failure of the location fix is swallowed. It is not: without a
  \<open>catch\<close>, the promise of \<open>initCompass\<close> is rejected with the failure of the fix.
\<close>

theorem location_failure_rejects:
  "fst (initCompass no_location initial_state) = Rejected ''Location request failed'' \<and>
   fst (initCompass no_location initial_state) \<noteq> Resolved ()"
  by (simp add: initCompass_def no_location_def)

text \<open>
  C5, amended. From any state, at the first initialisation or at a later one: when the
  sensor is available, the permission granted and the location fix fails, the promise of
  \<open>initCompass\<close> is rejected with that failure, after the \<open>finally\<close> block has run. The
  state it leaves is the state before with the loading ended, the update interval at
  100 ms and one more listener, registered and kept as the subscription; the error and
  the bearing are what they were, so no error and the bearing 0 at the first
  initialisation. A sample that follows changes the retained heading only, and with it
  the degree, the label and the two rotations.
\<close>

theorem initCompass_location_failure:
  assumes "isAvailableAsync p = Resolved True"
    and "requestForegroundPermissionsAsync p = Resolved ''granted''"
    and "getCurrentPositionAsync p = Rejected e"
  shows "(let s' = s\<lparr>isLoading := False, updateInterval := Some 100,
                 listeners := listeners s @ [length (listeners s)],
                 subscription := Some (length (listeners s))\<rparr>
     in initCompass p s = (Rejected e, s') \<and>
       updateInterval s' = Some 100 \<and> subscription s' = Some (length (listeners s)) \<and>
       listeners s' = listeners s @ [length (listeners s)] \<and>
       isLoading s' = False \<and> error s' = error s \<and> qiblad s' = qiblad s \<and>
       magnetometer s' = magnetometer s \<and>
       Magnetometer_emit d s' = s'\<lparr>magnetometer := angle (Some d)\<rparr> \<and>
       magnetometer (Magnetometer_emit d s') = angle (Some d) \<and>
       compassDegree (Magnetometer_emit d s') = degree (angle (Some d)) \<and>
       compassDirection (Magnetometer_emit d s') = direction (degree (angle (Some d))) \<and>
       compassRotate (Magnetometer_emit d s') = 360 - degree (angle (Some d)) \<and>
       kabaRotate (Magnetometer_emit d s') = 360 - degree (angle (Some d)) + qiblad s \<and>
       qiblad (Magnetometer_emit d s') = qiblad s \<and>
       error (Magnetometer_emit d s') = error s \<and>
       isLoading (Magnetometer_emit d s') = False) \<and>
    error initial_state = None \<and> qiblad initial_state = 0"
proof -
  define s' where "s' = s\<lparr>isLoading := False, updateInterval := Some 100,
         listeners := listeners s @ [length (listeners s)],
         subscription := Some (length (listeners s))\<rparr>"
  have run: "initCompass p s = (Rejected e, s')"
    using assms by (simp add: initCompass_def subscribe_def Let_def s'_def)
  have emit: "Magnetometer_emit d s' = s'\<lparr>magnetometer := angle (Some d)\<rparr>"
    by (simp add: Magnetometer_emit_def fold_listener listener_def s'_def)
  have fields: "updateInterval s' = Some 100" "subscription s' = Some (length (listeners s))"
    "listeners s' = listeners s @ [length (listeners s)]" "isLoading s' = False"
    "error s' = error s" "qiblad s' = qiblad s" "magnetometer s' = magnetometer s"
    by (simp_all add: s'_def)
  have init: "error initial_state = None" "qiblad initial_state = 0"
    by (simp_all add: initial_state_def)
  show ?thesis
    unfolding Let_def s'_def [symmetric] run emit
    by (simp add: fields init compassDegree_def compassDirection_def compassRotate_def
        kabaRotate_def)
qed

theorem initCompass_location_failure_witness:
  "fst (initCompass no_location initial_state) = Rejected ''Location request failed'' \<and>
   isLoading (snd (initCompass no_location initial_state)) = False \<and>
   subscription (snd (initCompass no_location initial_state)) = Some 0 \<and>
   listeners (snd (initCompass no_location initial_state)) = [0] \<and>
   updateInterval (snd (initCompass no_location initial_state)) = Some 100 \<and>
   error (snd (initCompass no_location initial_state)) = None \<and>
   qiblad (snd (initCompass no_location initial_state)) = 0 \<and>
   compassDegree
     (Magnetometer_emit \<lparr>sx = 0, sy = 1\<rparr> (snd (initCompass no_location initial_state))) = 0 \<and>
   compassDirection
     (Magnetometer_emit \<lparr>sx = 0, sy = 1\<rparr> (snd (initCompass no_location initial_state))) = ''N'' \<and>
   fst (initCompass no_location turned_state) = Rejected ''Location request failed'' \<and>
   subscription (snd (initCompass no_location turned_state)) = Some 1 \<and>
   listeners (snd (initCompass no_location turned_state)) = [0, 1] \<and>
   isLoading (snd (initCompass no_location turned_state)) = False \<and>
   error (snd (initCompass no_location turned_state)) = None \<and>
   qiblad (snd (initCompass no_location turned_state)) = 68.5775 \<and>
   kabaRotate
     (Magnetometer_emit \<lparr>sx = 0, sy = 1\<rparr> (snd (initCompass no_location turned_state))) =
     428.5775"
proof -
  have p: "isAvailableAsync no_location = Resolved True"
    "requestForegroundPermissionsAsync no_location = Resolved ''granted''"
    "getCurrentPositionAsync no_location = Rejected ''Location request failed''"
    by (simp_all add: no_location_def)
  have t: "listeners turned_state = [0]" "error turned_state = None"
    by (simp_all add: turned_state_def Magnetometer_emit_def listener_def initCompass_def
        west_observer_def subscribe_def Let_def calculate_def initial_state_def)
  have i: "listeners initial_state = []"
    by (simp add: initial_state_def)
  from initCompass_location_failure [OF p, of initial_state "\<lparr>sx = 0, sy = 1\<rparr>"]
    initCompass_location_failure [OF p, of turned_state "\<lparr>sx = 0, sy = 1\<rparr>"]
  show ?thesis
    unfolding Let_def
    by (elim conjE) (simp add: angle_axes degree_def direction_def t i turned_state_fields)
qed

section \<open>Before the first sample\<close>

text \<open>
  A run of \<open>initCompass\<close> leaves the retained heading as it is.
\<close>

lemma initCompass_magnetometer: "magnetometer (snd (initCompass p s)) = magnetometer s"
  by (simp add: initCompass_def subscribe_def calculate_def Let_def split: promise.splits)

text \<open>
  C10. Until a sample arrives the retained heading is its initial 0, before and after
  a run of \<open>initCompass\<close>, and the hook shows the degree 271, the label \<open>W\<close> and the
  rotation 89.
\<close>

theorem before_first_sample:
  "magnetometer initial_state = 0 \<and>
   magnetometer (snd (initCompass p initial_state)) = 0 \<and>
   compassDegree (snd (initCompass p initial_state)) = 271 \<and>
   compassDirection (snd (initCompass p initial_state)) = ''W'' \<and>
   compassRotate (snd (initCompass p initial_state)) = 89 \<and>
   compassDegree initial_state = 271 \<and>
   compassDirection initial_state = ''W'' \<and>
   compassRotate initial_state = 89"
  by (simp add: compassDegree_def compassDirection_def compassRotate_def
      initCompass_magnetometer initial_state_def degree_def direction_def)

section \<open>The two rotations\<close>

text \<open>
  In every state the hook can be in, the retained heading is an integer from 0 to 360.
\<close>

lemma reachable_magnetometer:
  "reachable s \<Longrightarrow> \<exists>n. 0 \<le> n \<and> n \<le> 360 \<and> magnetometer s = real_of_int n"
proof (induction rule: reachable.induct)
  case reachable_initial
  have "magnetometer initial_state = real_of_int 0" by (simp add: initial_state_def)
  then show ?case by fastforce
next
  case (reachable_init s p)
  then show ?case by (simp only: initCompass_magnetometer)
next
  case (reachable_emit s d)
  then show ?case
    by (cases "listeners s = []") (simp_all add: emit_magnetometer angle_range)
qed

text \<open>
  The remainder modulo 360 leaves \<open>[0, 360)\<close> as it is, and sends 360 to 0.
\<close>

lemma mod360_id: "0 \<le> v \<Longrightarrow> v < 360 \<Longrightarrow> mod360 v = v"
proof -
  assume "0 \<le> v" "v < 360"
  then have "\<lfloor>v / 360\<rfloor> = 0" by (intro floor_unique) simp_all
  then show ?thesis by (simp add: mod360_def)
qed

lemma mod360_full: "mod360 360 = 0"
  by (simp add: mod360_def)

text \<open>
  The two concrete states.
\<close>

lemma facing_state_magnetometer: "magnetometer facing_state = 90"
  by (simp add: facing_state_def emit_magnetometer angle_axes initCompass_def no_location_def
      subscribe_def Let_def)

lemma turned_state_kabaRotate: "reachable turned_state \<and> kabaRotate turned_state = 383.5775"
proof -
  have "reachable turned_state"
    unfolding turned_state_def by (intro reachable.intros)
  moreover have "kabaRotate turned_state = 383.5775"
    by (simp add: kabaRotate_def turned_state_fields degree_def)
  ultimately show ?thesis by simp
qed

text \<open>
  C8, as it stands: in every state the hook can be in, the rotation of the face is
  \<open>(360 - h) mod 360\<close> for the device heading \<open>h\<close>, and below 360. It is not: after the
  reading \<open>(0, 1)\<close> the device heading is 0 and the rotation of the face is 360.
\<close>

theorem face_rotation_full_turn:
  "reachable facing_state \<and> compassDegree facing_state = 0 \<and>
   compassRotate facing_state = 360 \<and> mod360 (360 - compassDegree facing_state) = 0 \<and>
   compassRotate facing_state \<noteq> mod360 (360 - compassDegree facing_state) \<and>
   \<not> compassRotate facing_state < 360"
proof -
  have "reachable facing_state"
    unfolding facing_state_def by (intro reachable.intros)
  then show ?thesis
    by (simp add: compassDegree_def compassRotate_def facing_state_magnetometer degree_def
        mod360_full)
qed

text \<open>
  C8, amended. In every state the hook can be in, the rotation of the face is 360 less
  the device heading, from 0 to 360; it is \<open>(360 - h) mod 360\<close> and below 360 unless the
  device heading is 0. The rotation of the target is the rotation of the face plus the
  bearing, and it is not wrapped: it is 383.5775 in a state the hook can be in.
\<close>

theorem rotations_of_reachable:
  assumes "reachable s"
  shows "compassRotate s = 360 - compassDegree s \<and>
    0 \<le> compassRotate s \<and> compassRotate s \<le> 360 \<and>
    (compassDegree s \<noteq> 0 \<longrightarrow>
       compassRotate s = mod360 (360 - compassDegree s) \<and> compassRotate s < 360) \<and>
    kabaRotate s = compassRotate s + qiblad s \<and>
    reachable turned_state \<and> kabaRotate turned_state = 383.5775"
proof -
  from assms obtain n where n: "0 \<le> n" "n \<le> 360" "magnetometer s = real_of_int n"
    using reachable_magnetometer by blast
  have h: "0 \<le> compassDegree s" "compassDegree s \<le> 360"
    using n by (simp_all only: compassDegree_def degree_int_range)
  have rot: "compassRotate s = 360 - compassDegree s"
    by (simp add: compassRotate_def compassDegree_def)
  have wrap: "compassRotate s = mod360 (360 - compassDegree s) \<and> compassRotate s < 360"
    if "compassDegree s \<noteq> 0"
  proof -
    from that h have "0 \<le> 360 - compassDegree s" "360 - compassDegree s < 360" by simp_all
    then show ?thesis by (simp add: rot mod360_id)
  qed
  have "kabaRotate s = compassRotate s + qiblad s"
    by (simp add: kabaRotate_def compassRotate_def)
  with h rot wrap turned_state_kabaRotate show ?thesis by simp
qed

theorem rotations_of_reachable_witness:
  "compassDegree initial_state = 271 \<and> compassRotate initial_state = 89 \<and>
   mod360 (360 - compassDegree initial_state) = 89 \<and> kabaRotate initial_state = 89"
proof -
  have d: "compassDegree initial_state = 271" "qiblad initial_state = 0"
    by (simp_all add: compassDegree_def initial_state_def degree_def)
  from rotations_of_reachable [OF reachable_initial] d show ?thesis by simp
qed

end
